theory Spec2Isabelle
  imports Complex_Main "HOL-Library.Word" "HOL-Library.Sublist"
begin

section \<open>The SecretAuction contract\<close>

text \<open>
  The Solidity contract \<open>SecretAuction\<close>. An address is a 160-bit word, \<open>uint32\<close> and
  \<open>uint256\<close> are words of that width, \<open>bytes\<close> is a list of octets.

  The FHE library is not part of the repository. Its operations are modelled by what they
  compute on the cleartexts: an \<open>euint32\<close> carries the 32-bit value it encrypts, an
  \<open>ebool\<close> the boolean. A storage slot of type \<open>euint32\<close> that was never written holds
  the zero handle, which is \<open>None\<close> here. The verification of an external input
  (\<open>FHE.fromExternal\<close>) is a parameter \<open>V\<close>: for a sender, a 32-byte input handle and a
  proof it gives the cleartext the handle stands for, or \<open>None\<close> when the proof does not
  verify, in which case the call reverts.
\<close>

type_synonym addr = "160 word"
type_synonym uint32 = "32 word"
type_synonym uint256 = "256 word"
type_synonym bytes = "8 word list"

datatype euint32 = Euint32 uint32
datatype ebool = Ebool bool

type_synonym bytes32 = "euint32 option"
type_synonym verifier = "addr \<Rightarrow> uint256 \<Rightarrow> bytes \<Rightarrow> uint32 option"

datatype failure = InvalidInputProof | Require string

datatype grantee = ThisContract | Account addr

datatype event = BidSubmitted addr uint256

record SecretAuction =
  reservePrice :: euint32
  bidResults :: "addr \<Rightarrow> euint32 option"
  hasBid :: "addr \<Rightarrow> bool"
  bidTimestamp :: "addr \<Rightarrow> uint256"
  allowed :: "(euint32 \<times> grantee) set"
  emitted :: "event list"

definition FHE_asEuint32 :: "uint32 \<Rightarrow> euint32" where
  "FHE_asEuint32 v = Euint32 v"

fun FHE_gt :: "euint32 \<Rightarrow> euint32 \<Rightarrow> ebool" where
  "FHE_gt (Euint32 a) (Euint32 b) = Ebool (b < a)"

fun FHE_eq :: "euint32 \<Rightarrow> euint32 \<Rightarrow> ebool" where
  "FHE_eq (Euint32 a) (Euint32 b) = Ebool (a = b)"

fun FHE_or :: "ebool \<Rightarrow> ebool \<Rightarrow> ebool" where
  "FHE_or (Ebool a) (Ebool b) = Ebool (a \<or> b)"

fun FHE_select :: "ebool \<Rightarrow> euint32 \<Rightarrow> euint32 \<Rightarrow> euint32" where
  "FHE_select (Ebool c) a b = (if c then a else b)"

definition FHE_fromExternal :: "verifier \<Rightarrow> addr \<Rightarrow> uint256 \<Rightarrow> bytes \<Rightarrow> failure + euint32" where
  "FHE_fromExternal V sender encryptedBid prf =
     (case V sender encryptedBid prf of
        None \<Rightarrow> Inl InvalidInputProof
      | Some v \<Rightarrow> Inr (Euint32 v))"

definition FHE_toBytes32 :: "euint32 option \<Rightarrow> bytes32" where
  "FHE_toBytes32 h = h"

text \<open>The constructor: the reserve price is the encryption of 1000, granted to the contract.\<close>

definition constructor :: SecretAuction where
  "constructor =
     (let reserve = FHE_asEuint32 1000 in
      \<lparr> reservePrice = reserve,
        bidResults = (\<lambda>_. None),
        hasBid = (\<lambda>_. False),
        bidTimestamp = (\<lambda>_. 0),
        allowed = {(reserve, ThisContract)},
        emitted = [] \<rparr>)"

text \<open>
  \<open>submitBid\<close>, called by \<open>sender\<close> in a block with timestamp \<open>now\<close>. A revert is
  \<open>Inl\<close>; the state is then the one before the call.
\<close>

definition submitBid ::
  "verifier \<Rightarrow> SecretAuction \<Rightarrow> addr \<Rightarrow> uint256 \<Rightarrow> uint256 \<Rightarrow> bytes \<Rightarrow> failure + SecretAuction" where
  "submitBid V c sender now encryptedBid prf =
     (case FHE_fromExternal V sender encryptedBid prf of
        Inl e \<Rightarrow> Inl e
      | Inr bid \<Rightarrow>
          (let isGreater = FHE_gt bid (reservePrice c);
               isEqual = FHE_eq bid (reservePrice c);
               isSuccess = FHE_or isGreater isEqual;
               one = FHE_asEuint32 1;
               zero = FHE_asEuint32 0;
               result = FHE_select isSuccess one zero
           in Inr (c\<lparr> bidResults := (bidResults c)(sender := Some result),
                      hasBid := (hasBid c)(sender := True),
                      bidTimestamp := (bidTimestamp c)(sender := now),
                      allowed := allowed c \<union> {(result, ThisContract), (result, Account sender)},
                      emitted := emitted c @ [BidSubmitted sender now] \<rparr>)))"

definition getMyResult :: "SecretAuction \<Rightarrow> addr \<Rightarrow> failure + bytes32" where
  "getMyResult c sender =
     (if hasBid c sender then Inr (FHE_toBytes32 (bidResults c sender))
      else Inl (Require ''No bid submitted''))"

definition hasUserBid :: "SecretAuction \<Rightarrow> addr \<Rightarrow> bool" where
  "hasUserBid c user = hasBid c user"

definition getBidTimestamp :: "SecretAuction \<Rightarrow> addr \<Rightarrow> failure + uint256" where
  "getBidTimestamp c user =
     (if hasBid c user then Inr (bidTimestamp c user)
      else Inl (Require ''No bid submitted''))"

text \<open>
  The contract's only state-changing entry point is \<open>submitBid\<close>, so a history of the
  deployed contract is a list of such calls; a call that reverts changes nothing.
\<close>

record call =
  caller :: addr
  minedAt :: uint256
  bidHandle :: uint256
  bidProof :: bytes

definition exec :: "verifier \<Rightarrow> SecretAuction \<Rightarrow> call \<Rightarrow> SecretAuction" where
  "exec V c t =
     (case submitBid V c (caller t) (minedAt t) (bidHandle t) (bidProof t) of
        Inl _ \<Rightarrow> c
      | Inr c' \<Rightarrow> c')"

definition run :: "verifier \<Rightarrow> call list \<Rightarrow> SecretAuction" where
  "run V ts = foldl (exec V) constructor ts"

definition accepted :: "verifier \<Rightarrow> call \<Rightarrow> bool" where
  "accepted V t = (V (caller t) (bidHandle t) (bidProof t) \<noteq> None)"

text \<open>
  The value an encrypted result stands for. The contract writes 1 for success and 0 for
  failure (\<open>1 = success, 0 = failure\<close>).
\<close>

fun cleartext :: "euint32 \<Rightarrow> nat" where
  "cleartext (Euint32 v) = unat v"

text \<open>A verifier for concrete runs: any non-empty proof verifies, and the handle's low 32
  bits are the cleartext.\<close>

definition test_verifier :: verifier where
  "test_verifier who h prf = (if prf = [] then None else Some (ucast h))"

section \<open>The demo-mode guide: detection and mock result\<close>

text \<open>
  The guide describes a demo mode in which a decryption that times out or fails is
  replaced by a result computed in the browser from the plaintext saved at submission.
  \<open>checkDemoMode\<close> reads the page URL, the local storage and the build environment;
  \<open>calculateMockResult\<close> is the guide's mock for a result of type number.

  \<open>String\<close> is JavaScript's conversion of a number to a string; \<open>String_nat\<close> is that
  conversion on the non-negative integers below \<open>10^21\<close>, which are written in plain
  decimal digits.
\<close>

record browser =
  hasWindow :: bool
  urlDemo :: "string option"
  localStorage :: "string \<rightharpoonup> string"
  NODE_ENV :: string
  NEXT_PUBLIC_DEMO_MODE :: "string option"

definition checkDemoMode :: "browser \<Rightarrow> bool" where
  "checkDemoMode b =
     (if \<not> hasWindow b then False
      else if urlDemo b = Some ''true'' then True
      else if localStorage b ''DEMO_MODE'' = Some ''true'' then True
      else if NODE_ENV b = ''development'' \<and> NEXT_PUBLIC_DEMO_MODE b = Some ''true'' then True
      else False)"

definition digit_char :: "nat \<Rightarrow> char" where
  "digit_char d = ''0123456789'' ! d"

function String_nat :: "nat \<Rightarrow> string" where
  "String_nat n =
     (if n < 10 then [digit_char n]
      else String_nat (n div 10) @ [digit_char (n mod 10)])"
  by pat_completeness auto
termination
  by (relation "measure (\<lambda>n. n)") auto

declare String_nat.simps [simp del]

definition SECRET_NUMBER :: nat where
  "SECRET_NUMBER = 888"

definition calculateMockResult :: "string option \<Rightarrow> nat" where
  "calculateMockResult savedValue =
     (if savedValue = Some (String_nat SECRET_NUMBER) then 1 else 0)"

section \<open>The auction page\<close>

text \<open>
  The React component \<open>AuctionPage\<close>. Its state variables are the fields of \<open>page\<close>;
  a handler takes the state of the render it was created in and gives the state after
  all its updates.

  What the page calls but does not define is a parameter, collected in \<open>services\<close>:
  the JavaScript builtins \<open>parseFloat\<close> and \<open>parseInt\<close>, the relayer SDK, the wallet and
  the contract as reached through ethers. Every such call is appended, with what it was
  given, to a log of type \<open>io list\<close>; the answer of a service may depend on when it is
  asked, so each service takes the length of the log at the time of the call. A call
  that throws answers \<open>Inl\<close> with the exception.
\<close>

datatype number = NaN | PosInfinity | NegInfinity | Finite rat

fun le_zero :: "number \<Rightarrow> bool" where
  "le_zero NaN = False"
| "le_zero PosInfinity = False"
| "le_zero NegInfinity = True"
| "le_zero (Finite q) = (q \<le> 0)"

datatype exn = Exn "string option"

fun message :: "exn \<Rightarrow> string option" where
  "message (Exn m) = m"

datatype sdk_instance = FhevmInstance
datatype wallet_client = WalletClient
datatype result_value = Null | Undefined | Decrypted nat

record page =
  isConnected :: bool
  isInitializing :: bool
  initError :: "string option"
  fhevmInstance :: "sdk_instance option"
  walletClient :: "wallet_client option"
  address :: "addr option"
  bidAmount :: string
  isSubmitting :: bool
  isDecrypting :: bool
  hasBidSubmitted :: bool
  canDecrypt :: bool
  countdown :: nat
  result :: result_value
  error :: "string option"

text \<open>
  A JavaScript number is \<open>NaN\<close>, an infinity or a finite value; every finite double
  is a rational. \<open>le_zero\<close> is the comparison \<open>x <= 0\<close>, false for \<open>NaN\<close>. An
  exception carries its \<open>message\<close>, which may be missing. The \<open>result\<close> of the page
  is \<open>null\<close>, the value the relayer answered for the handle, stored as it came, or
  \<open>undefined\<close> when the answer has no entry for the handle. The keys of a keypair are opaque values.

  The calls in the log: the SDK's encryption of a number for a contract and a user
  (\<open>createEncryptedInput\<close>, \<open>add32\<close>, \<open>encrypt\<close>), \<open>getSigner\<close>, the transaction
  \<open>submitBid(handle, proof)\<close> and the wait for its confirmation, \<open>setInterval\<close> and
  \<open>setTimeout\<close> with their delay in milliseconds, the contract call \<open>getMyResult\<close>,
  \<open>generateKeypair\<close> with what it returned, \<open>Date.now\<close>, \<open>createEIP712\<close> with the public
  key, start timestamp and duration, \<open>signTypedData\<close>, and \<open>userDecrypt\<close> with the
  handle, the keypair and the signature.
\<close>

record encrypted_input =
  handles :: "uint256 list"
  inputProof :: bytes

record keypair =
  publicKey :: nat
  privateKey :: nat

datatype io =
    Encrypt string addr number
  | GetSigner
  | ContractSubmitBid "uint256 option" bytes
  | TxWait
  | SetInterval nat
  | ContractGetMyResult
  | GenerateKeypair "exn + keypair"
  | DateNow
  | CreateEIP712 nat string string
  | SignTypedData
  | UserDecrypt bytes32 keypair string
  | SetTimeout nat

record services =
  CONTRACT_ADDRESS :: string
  parseFloat :: "string \<Rightarrow> number"
  parseInt :: "string \<Rightarrow> number"
  encrypt :: "nat \<Rightarrow> string \<Rightarrow> addr \<Rightarrow> number \<Rightarrow> exn + encrypted_input"
  getSigner :: "nat \<Rightarrow> exn + unit"
  sendSubmitBid :: "nat \<Rightarrow> uint256 option \<Rightarrow> bytes \<Rightarrow> exn + unit"
  txWait :: "nat \<Rightarrow> exn + unit"
  callGetMyResult :: "nat \<Rightarrow> exn + bytes32"
  generateKeypair :: "nat \<Rightarrow> exn + keypair"
  dateNow :: "nat \<Rightarrow> nat"
  createEIP712 :: "nat \<Rightarrow> nat \<Rightarrow> string \<Rightarrow> string \<Rightarrow> exn + unit"
  signTypedData :: "nat \<Rightarrow> exn + string"
  userDecrypt :: "nat \<Rightarrow> bytes32 \<Rightarrow> keypair \<Rightarrow> string \<Rightarrow> exn + (nat option)"

text \<open>\<open>e.message || dflt\<close>: a missing or empty message gives the default.\<close>

fun message_or :: "exn \<Rightarrow> string \<Rightarrow> string" where
  "message_or (Exn None) dflt = dflt"
| "message_or (Exn (Some m)) dflt = (if m = [] then dflt else m)"

text \<open>\<open>s.includes(t)\<close>: \<open>t\<close> occurs in \<open>s\<close> as a contiguous substring.\<close>

fun js_includes :: "string \<Rightarrow> string \<Rightarrow> bool" where
  "js_includes [] t = (t = [])"
| "js_includes (c # cs) t = (prefix t (c # cs) \<or> js_includes cs t)"

text \<open>\<open>e.message?.includes('500')\<close>: the test that makes a failed decryption retryable.\<close>

fun is_500 :: "exn \<Rightarrow> bool" where
  "is_500 (Exn None) = False"
| "is_500 (Exn (Some m)) = js_includes m ''500''"

text \<open>\<open>xs[0]\<close> of a JavaScript array: \<open>undefined\<close> (here \<open>None\<close>) when the array is empty.\<close>

fun first :: "'a list \<Rightarrow> 'a option" where
  "first [] = None"
| "first (x # xs) = Some x"

definition handleTryAgain :: "page \<Rightarrow> page" where
  "handleTryAgain st =
     st\<lparr> bidAmount := [],
         hasBidSubmitted := False,
         canDecrypt := False,
         countdown := 0,
         result := Null,
         error := None \<rparr>"

text \<open>The \<open>try\<close> block of \<open>handleSubmitBid\<close> up to the confirmation of the transaction.\<close>

definition submit_try :: "services \<Rightarrow> addr \<Rightarrow> string \<Rightarrow> io list \<Rightarrow> (exn + unit) \<times> io list" where
  "submit_try env me amount w =
     (let w1 = w @ [Encrypt (CONTRACT_ADDRESS env) me (parseInt env amount)] in
      case encrypt env (length w) (CONTRACT_ADDRESS env) me (parseInt env amount) of
        Inl e \<Rightarrow> (Inl e, w1)
      | Inr encryptedInput \<Rightarrow>
          (let handle = first (handles encryptedInput);
               prf = inputProof encryptedInput;
               w2 = w1 @ [GetSigner] in
           case getSigner env (length w1) of
             Inl e \<Rightarrow> (Inl e, w2)
           | Inr _ \<Rightarrow>
               (let w3 = w2 @ [ContractSubmitBid handle prf] in
                case sendSubmitBid env (length w2) handle prf of
                  Inl e \<Rightarrow> (Inl e, w3)
                | Inr _ \<Rightarrow>
                    (let w4 = w3 @ [TxWait] in
                     case txWait env (length w3) of
                       Inl e \<Rightarrow> (Inl e, w4)
                     | Inr _ \<Rightarrow> (Inr (), w4)))))"

definition handleSubmitBid :: "services \<Rightarrow> page \<times> io list \<Rightarrow> page \<times> io list" where
  "handleSubmitBid env s =
     (case s of (st, w) \<Rightarrow>
        if fhevmInstance st = None \<or> walletClient st = None \<or> address st = None
        then (st\<lparr>error := Some ''Please connect your wallet first''\<rparr>, w)
        else if bidAmount st = [] \<or> le_zero (parseFloat env (bidAmount st))
        then (st\<lparr>error := Some ''Please enter a valid bid amount''\<rparr>, w)
        else if CONTRACT_ADDRESS env = []
        then (st\<lparr>error := Some ''Contract not deployed yet. Please wait.''\<rparr>, w)
        else
          (let st1 = st\<lparr>isSubmitting := True, error := None\<rparr> in
           case submit_try env (the (address st)) (bidAmount st) w of
             (Inr _, w') \<Rightarrow>
               (st1\<lparr>hasBidSubmitted := True, bidAmount := [], countdown := 10,
                    isSubmitting := False\<rparr>,
                w' @ [SetInterval 1000])
           | (Inl e, w') \<Rightarrow>
               (st1\<lparr>error := Some (message_or e ''Failed to submit bid''),
                    isSubmitting := False\<rparr>, w')))"

text \<open>One firing of the interval started by a confirmed submission. The second component
  tells whether the interval goes on (\<open>clearInterval\<close> was not called).\<close>

definition tick :: "page \<Rightarrow> page \<times> bool" where
  "tick st =
     (if countdown st \<le> 1 then (st\<lparr>canDecrypt := True, countdown := 0\<rparr>, False)
      else (st\<lparr>countdown := countdown st - 1\<rparr>, True))"

text \<open>\<open>signature.replace("0x", "")\<close>: the first occurrence of \<open>0x\<close> is removed.\<close>

fun replace_0x :: "string \<Rightarrow> string" where
  "replace_0x [] = []"
| "replace_0x (c # cs) = (if prefix ''0x'' (c # cs) then drop 2 (c # cs) else c # replace_0x cs)"

text \<open>The \<open>try\<close> block of \<open>handleDecryptResult\<close>: one decryption attempt. It fetches the
  result handle, generates a keypair, has the authorisation signed and asks the relayer
  to decrypt; the value is \<open>decryptedResults[encryptedHandle]\<close>.\<close>

definition decrypt_try :: "services \<Rightarrow> io list \<Rightarrow> (exn + result_value) \<times> io list" where
  "decrypt_try env w =
     (let w1 = w @ [GetSigner] in
      case getSigner env (length w) of
        Inl e \<Rightarrow> (Inl e, w1)
      | Inr _ \<Rightarrow>
     (let w2 = w1 @ [ContractGetMyResult] in
      case callGetMyResult env (length w1) of
        Inl e \<Rightarrow> (Inl e, w2)
      | Inr encryptedHandle \<Rightarrow>
     (let generated = generateKeypair env (length w2);
          w3 = w2 @ [GenerateKeypair generated] in
      case generated of
        Inl e \<Rightarrow> (Inl e, w3)
      | Inr keypair \<Rightarrow>
     (let startTimeStamp = String_nat (dateNow env (length w3) div 1000);
          w4 = w3 @ [DateNow];
          durationDays = ''10'';
          w5 = w4 @ [CreateEIP712 (publicKey keypair) startTimeStamp durationDays] in
      case createEIP712 env (length w4) (publicKey keypair) startTimeStamp durationDays of
        Inl e \<Rightarrow> (Inl e, w5)
      | Inr _ \<Rightarrow>
     (let w6 = w5 @ [SignTypedData] in
      case signTypedData env (length w5) of
        Inl e \<Rightarrow> (Inl e, w6)
      | Inr signature \<Rightarrow>
     (let w7 = w6 @ [UserDecrypt encryptedHandle keypair (replace_0x signature)] in
      case userDecrypt env (length w6) encryptedHandle keypair (replace_0x signature) of
        Inl e \<Rightarrow> (Inl e, w7)
      | Inr decryptedValue \<Rightarrow>
          (Inr (case decryptedValue of None \<Rightarrow> Undefined | Some v \<Rightarrow> Decrypted v), w7)))))))"

text \<open>
  \<open>handleDecryptResult(retryCount)\<close>. In the retry branch the handler waits
  \<open>waitTime * 1000\<close> milliseconds and returns the promise of the call with
  \<open>retryCount + 1\<close>; its own \<open>finally\<close> sets \<open>isDecrypting\<close> to false, which is also the
  last update of every call that passed the wallet check, so the state after the whole
  chain has \<open>isDecrypting = False\<close>.
\<close>

function handleDecryptResult :: "services \<Rightarrow> nat \<Rightarrow> page \<times> io list \<Rightarrow> page \<times> io list" where
  "handleDecryptResult env retryCount (st, w) =
     (if fhevmInstance st = None \<or> walletClient st = None \<or> address st = None
      then (st\<lparr>error := Some ''Please connect your wallet first''\<rparr>, w)
      else
        (let st1 = st\<lparr>isDecrypting := True, error := None\<rparr> in
         case decrypt_try env w of
           (Inr decryptedValue, w') \<Rightarrow>
             (st1\<lparr>result := decryptedValue, canDecrypt := False, isDecrypting := False\<rparr>, w')
         | (Inl e, w') \<Rightarrow>
             if is_500 e \<and> retryCount < 3
             then
               (let waitTime = (retryCount + 1) * 10;
                    st2 = st1\<lparr>error := Some (''Retrying... ('' @ String_nat (retryCount + 1) @ ''/3)'')\<rparr>
                in case handleDecryptResult env (retryCount + 1) (st2, w' @ [SetTimeout (waitTime * 1000)]) of
                     (st3, w3) \<Rightarrow> (st3\<lparr>isDecrypting := False\<rparr>, w3))
             else
               (st1\<lparr>error := Some (message_or e ''Failed to decrypt result''),
                    isDecrypting := False\<rparr>, w')))"
  by pat_completeness auto
termination
  by (relation "measure (\<lambda>(env, retryCount, s). 3 - retryCount)") auto

declare handleDecryptResult.simps [simp del]

text \<open>
  What the page renders decides which handler the user can reach. The main interface is
  rendered when the wallet is connected and the SDK is neither initialising nor failed.
  In it, the bid form is there while \<open>hasBidSubmitted\<close> is false, its input is disabled
  while submitting and its button while submitting or without an amount; the decrypt
  button is there when \<open>canDecrypt\<close> holds and there is no result, disabled while
  decrypting; the result with its Try Again button is there once \<open>result\<close> is not null.
\<close>

definition mainInterface :: "page \<Rightarrow> bool" where
  "mainInterface st = (isConnected st \<and> \<not> isInitializing st \<and> initError st = None)"

definition bidFormShown :: "page \<Rightarrow> bool" where
  "bidFormShown st = (mainInterface st \<and> \<not> hasBidSubmitted st)"

definition submitEnabled :: "page \<Rightarrow> bool" where
  "submitEnabled st = (bidFormShown st \<and> \<not> (isSubmitting st \<or> bidAmount st = []))"

definition decryptEnabled :: "page \<Rightarrow> bool" where
  "decryptEnabled st =
     (mainInterface st \<and> canDecrypt st \<and> result st = Null \<and> \<not> isDecrypting st)"

definition tryAgainShown :: "page \<Rightarrow> bool" where
  "tryAgainShown st = (mainInterface st \<and> result st \<noteq> Null)"

text \<open>
  The user's actions and the timer. An action on a control that is not rendered or is
  disabled does nothing. The interval exists from \<open>setCountdown(10)\<close> until the firing
  that finds the countdown at 1 or less, so it fires only while the countdown is positive.
\<close>

datatype action = TypeBid string | ClickSubmit | TimerTick | ClickDecrypt | ClickTryAgain

fun act :: "services \<Rightarrow> page \<times> io list \<Rightarrow> action \<Rightarrow> page \<times> io list" where
  "act env (st, w) (TypeBid s) =
     (if bidFormShown st \<and> \<not> isSubmitting st then (st\<lparr>bidAmount := s\<rparr>, w) else (st, w))"
| "act env (st, w) ClickSubmit =
     (if submitEnabled st then handleSubmitBid env (st, w) else (st, w))"
| "act env (st, w) TimerTick =
     (if 0 < countdown st then (fst (tick st), w) else (st, w))"
| "act env (st, w) ClickDecrypt =
     (if decryptEnabled st then handleDecryptResult env 0 (st, w) else (st, w))"
| "act env (st, w) ClickTryAgain =
     (if tryAgainShown st then (handleTryAgain st, w) else (st, w))"

definition session :: "services \<Rightarrow> page \<times> io list \<Rightarrow> action list \<Rightarrow> page \<times> io list" where
  "session env s as = foldl (act env) s as"

text \<open>
  The state of a freshly loaded page with a connected wallet and an initialised SDK: every
  \<open>useState\<close> at its initial value. The design's states are read off the state
  variables: the page is busy while a handler is between its first update and its
  \<open>finally\<close>; it is \<open>Idle\<close> when it is not busy and every session variable has its
  initial value (the bid amount apart, which the user types while idle); \<open>Resolved\<close>
  when a result is there; \<open>Failed\<close> when an error is shown and no result.
\<close>

definition fresh_page :: "addr \<Rightarrow> page" where
  "fresh_page me =
     \<lparr> isConnected = True, isInitializing = False, initError = None,
       fhevmInstance = Some FhevmInstance, walletClient = Some WalletClient,
       address = Some me, bidAmount = [], isSubmitting = False, isDecrypting = False,
       hasBidSubmitted = False, canDecrypt = False, countdown = 0, result = Null,
       error = None \<rparr>"

definition connected :: "page \<Rightarrow> bool" where
  "connected st = (fhevmInstance st \<noteq> None \<and> walletClient st \<noteq> None \<and> address st \<noteq> None)"

definition busy :: "page \<Rightarrow> bool" where
  "busy st = (isSubmitting st \<or> isDecrypting st)"

definition Idle :: "page \<Rightarrow> bool" where
  "Idle st = (\<not> busy st \<and> \<not> hasBidSubmitted st \<and> \<not> canDecrypt st \<and> countdown st = 0
              \<and> result st = Null \<and> error st = None)"

definition Resolved :: "page \<Rightarrow> bool" where
  "Resolved st = (\<not> busy st \<and> result st \<noteq> Null)"

definition Failed :: "page \<Rightarrow> bool" where
  "Failed st = (\<not> busy st \<and> result st = Null \<and> error st \<noteq> None)"

text \<open>The log's view of the decryption attempts: the keypairs generated and the keypairs
  handed to the relayer, in order.\<close>

fun keys_generated :: "io list \<Rightarrow> keypair list" where
  "keys_generated [] = []"
| "keys_generated (GenerateKeypair (Inr k) # w) = k # keys_generated w"
| "keys_generated (_ # w) = keys_generated w"

fun keys_used :: "io list \<Rightarrow> keypair list" where
  "keys_used [] = []"
| "keys_used (UserDecrypt h k s # w) = k # keys_used w"
| "keys_used (_ # w) = keys_used w"

fun ledger_submissions :: "io list \<Rightarrow> (uint256 option \<times> bytes) list" where
  "ledger_submissions [] = []"
| "ledger_submissions (ContractSubmitBid h p # w) = (h, p) # ledger_submissions w"
| "ledger_submissions (_ # w) = ledger_submissions w"

fun backoffs :: "io list \<Rightarrow> nat list" where
  "backoffs [] = []"
| "backoffs (SetTimeout ms # w) = ms # backoffs w"
| "backoffs (_ # w) = backoffs w"

text \<open>
  A log is faithful to the services from position \<open>i\<close> when every keypair it records
  is the one the SDK generated at that position. The SDK's keypairs are fresh when it
  never generates the same keypair at two different times.
\<close>

fun logged_from :: "services \<Rightarrow> nat \<Rightarrow> io list \<Rightarrow> bool" where
  "logged_from env i [] = True"
| "logged_from env i (GenerateKeypair r # w) =
     (generateKeypair env i = r \<and> logged_from env (Suc i) w)"
| "logged_from env i (_ # w) = logged_from env (Suc i) w"

definition fresh_keys :: "services \<Rightarrow> bool" where
  "fresh_keys env =
     (\<forall>i j k. generateKeypair env i = Inr k \<and> generateKeypair env j = Inr k \<longrightarrow> i = j)"

text \<open>
  \<open>extends_log env w w' k b\<close>: the log \<open>w'\<close> is \<open>w\<close> followed by new calls that are
  faithful to the services, hand to the relayer only keypairs generated among them, in
  the order of generation, and contain at most \<open>k\<close> decryption requests and \<open>b\<close> waits.
\<close>

definition extends_log :: "services \<Rightarrow> io list \<Rightarrow> io list \<Rightarrow> nat \<Rightarrow> nat \<Rightarrow> bool" where
  "extends_log env w w' k b =
     (\<exists>new. w' = w @ new \<and> logged_from env (length w) new
        \<and> subseq (keys_used new) (keys_generated new)
        \<and> length (keys_used new) \<le> k \<and> length (backoffs new) \<le> b)"

section \<open>Stand-ins for concrete runs\<close>

text \<open>
  The closed examples below need concrete services. \<open>plain_decimal\<close> stands in for
  \<open>parseFloat\<close> and \<open>parseInt\<close>: on a string of at most fifteen decimal digits with an
  optional leading minus sign both builtins give the number the string denotes, and so
  does \<open>plain_decimal\<close>; it is used on such strings only. In \<open>test_services\<close> the wallet,
  the signer and the contract always answer, the encryption of a number in the range of
  \<open>uint32\<close> gives one handle and a one-byte proof, the \<open>k\<close>-th call of the log generates
  the keypair \<open>(2k, 2k + 1)\<close>, and the relayer's answer to \<open>userDecrypt\<close> is the parameter.
\<close>

definition digit_value :: "char \<Rightarrow> nat option" where
  "digit_value c =
     map_of [(CHR ''0'', 0), (CHR ''1'', 1), (CHR ''2'', 2), (CHR ''3'', 3), (CHR ''4'', 4),
             (CHR ''5'', 5), (CHR ''6'', 6), (CHR ''7'', 7), (CHR ''8'', 8), (CHR ''9'', 9)] c"

fun decimal_acc :: "nat \<Rightarrow> string \<Rightarrow> nat option" where
  "decimal_acc n [] = Some n"
| "decimal_acc n (c # cs) =
     (case digit_value c of None \<Rightarrow> None | Some d \<Rightarrow> decimal_acc (10 * n + d) cs)"

definition plain_decimal :: "string \<Rightarrow> number" where
  "plain_decimal s =
     (case s of
        [] \<Rightarrow> NaN
      | c # cs \<Rightarrow>
          if c = CHR ''-''
          then (if cs = [] then NaN
                else case decimal_acc 0 cs of None \<Rightarrow> NaN | Some n \<Rightarrow> Finite (- of_nat n))
          else (case decimal_acc 0 s of None \<Rightarrow> NaN | Some n \<Rightarrow> Finite (of_nat n)))"

definition test_encrypt :: "number \<Rightarrow> exn + encrypted_input" where
  "test_encrypt n =
     (case n of
        Finite q \<Rightarrow>
          if 0 \<le> q \<and> q < 4294967296
          then Inr \<lparr>handles = [word_of_int \<lfloor>q\<rfloor>], inputProof = [1]\<rparr>
          else Inl (Exn (Some ''value out of range''))
      | _ \<Rightarrow> Inl (Exn (Some ''not a number'')))"

definition test_services :: "(nat \<Rightarrow> exn + nat option) \<Rightarrow> services" where
  "test_services relayer =
     \<lparr> CONTRACT_ADDRESS = ''0xA11CE'',
       parseFloat = plain_decimal,
       parseInt = plain_decimal,
       encrypt = (\<lambda>i ca me n. test_encrypt n),
       getSigner = (\<lambda>i. Inr ()),
       sendSubmitBid = (\<lambda>i h p. Inr ()),
       txWait = (\<lambda>i. Inr ()),
       callGetMyResult = (\<lambda>i. Inr (Some (Euint32 1))),
       generateKeypair = (\<lambda>i. Inr \<lparr>publicKey = 2 * i, privateKey = 2 * i + 1\<rparr>),
       dateNow = (\<lambda>i. 1700000000000),
       createEIP712 = (\<lambda>i pk start days. Inr ()),
       signTypedData = (\<lambda>i. Inr ''0x5157''),
       userDecrypt = (\<lambda>i h k s. relayer i) \<rparr>"

definition relayer_up :: "nat \<Rightarrow> exn + nat option" where
  "relayer_up i = Inr (Some 1)"

definition relayer_down :: "nat \<Rightarrow> exn + nat option" where
  "relayer_down i = Inl (Exn (Some ''Request failed with status code 500''))"

definition relayer_unavailable :: "nat \<Rightarrow> exn + nat option" where
  "relayer_unavailable i = Inl (Exn (Some ''Request failed with status code 503''))"

text \<open>A page whose bid is confirmed and whose countdown has run out, and a browser with
  demo mode switched on by the URL and a plaintext saved for the bidder.\<close>

definition ready_page :: "addr \<Rightarrow> page" where
  "ready_page me = (fresh_page me)\<lparr>hasBidSubmitted := True, canDecrypt := True\<rparr>"

definition demo_browser :: browser where
  "demo_browser =
     \<lparr> hasWindow = True, urlDemo = Some ''true'',
       localStorage = [''lastGuess_0x7'' \<mapsto> ''1500''],
       NODE_ENV = ''production'', NEXT_PUBLIC_DEMO_MODE = None \<rparr>"

section \<open>Facts about the contract\<close>

lemma reservePrice_exec: "reservePrice (exec V c t) = reservePrice c"
  by (simp add: exec_def submitBid_def Let_def split: sum.splits)

lemma reservePrice_foldl: "reservePrice (foldl (exec V) c ts) = reservePrice c"
  by (induction ts arbitrary: c) (simp_all add: reservePrice_exec)

lemma reservePrice_run: "reservePrice (run V ts) = Euint32 1000"
  by (simp add: run_def reservePrice_foldl) (simp add: constructor_def FHE_asEuint32_def Let_def)


lemma hasBid_exec:
  "hasBid (exec V c t) a \<longleftrightarrow> hasBid c a \<or> (caller t = a \<and> accepted V t)"
  by (auto simp: exec_def submitBid_def FHE_fromExternal_def accepted_def Let_def
           split: sum.splits option.splits)

lemma hasBid_foldl:
  "hasBid (foldl (exec V) c ts) a \<longleftrightarrow> hasBid c a \<or> (\<exists>t \<in> set ts. caller t = a \<and> accepted V t)"
  by (induction ts arbitrary: c) (auto simp: hasBid_exec)

lemma hasBid_run:
  "hasBid (run V ts) a \<longleftrightarrow> (\<exists>t \<in> set ts. caller t = a \<and> accepted V t)"
  by (simp add: run_def hasBid_foldl) (simp add: constructor_def Let_def)

lemma bidResults_exec:
  "hasBid c a \<longrightarrow> bidResults c a \<noteq> None \<Longrightarrow>
   hasBid (exec V c t) a \<longrightarrow> bidResults (exec V c t) a \<noteq> None"
  by (auto simp: exec_def submitBid_def FHE_fromExternal_def Let_def
           split: sum.splits option.splits)

lemma bidResults_foldl:
  "hasBid c a \<longrightarrow> bidResults c a \<noteq> None \<Longrightarrow>
   hasBid (foldl (exec V) c ts) a \<longrightarrow> bidResults (foldl (exec V) c ts) a \<noteq> None"
proof (induction ts arbitrary: c)
  case Nil
  then show ?case by simp
next
  case (Cons t ts)
  from Cons.prems have "hasBid (exec V c t) a \<longrightarrow> bidResults (exec V c t) a \<noteq> None"
    by (rule bidResults_exec)
  then show ?case using Cons.IH by simp
qed

lemma bidResults_run: "hasBid (run V ts) a \<Longrightarrow> bidResults (run V ts) a \<noteq> None"
  using bidResults_foldl [of constructor a V ts]
  by (simp add: run_def constructor_def Let_def)

lemma submitBid_run:
  assumes "V who h prf = Some v"
  shows "\<exists>c'. submitBid V (run V ts) who now h prf = Inr c' \<and> hasBid c' who
           \<and> bidResults c' who = Some (Euint32 (if 1000 \<le> v then 1 else 0))
           \<and> (Euint32 (if 1000 \<le> v then 1 else 0), Account who) \<in> allowed c'"
  using assms reservePrice_run [of V ts]
  by (auto simp: submitBid_def FHE_fromExternal_def FHE_asEuint32_def Let_def)

section \<open>Facts about the mock result\<close>

lemma String_nat_888: "String_nat 888 = ''888''"
  by (simp add: String_nat.simps digit_char_def)

lemma digit_char_8:
  assumes "a < 10" and "digit_char a = CHR ''8''"
  shows "a = 8"
proof -
  from assms(1)
  have "a = 0 \<or> a = 1 \<or> a = 2 \<or> a = 3 \<or> a = 4 \<or> a = 5 \<or> a = 6 \<or> a = 7 \<or> a = 8 \<or> a = 9"
    by arith
  with assms(2) show ?thesis
    by (auto simp: digit_char_def)
qed

lemma String_nat_nonempty: "String_nat n \<noteq> []"
  by (subst String_nat.simps) simp

lemma String_nat_last: "last (String_nat n) = digit_char (n mod 10)"
  by (subst String_nat.simps) simp

lemma String_nat_butlast:
  "butlast (String_nat n) = (if n < 10 then [] else String_nat (n div 10))"
  by (subst String_nat.simps) simp

text \<open>Only 888 is written \<open>888\<close>.\<close>

lemma String_nat_is_888: "String_nat n = ''888'' \<longleftrightarrow> n = 888"
proof
  assume h: "String_nat n = ''888''"
  from h have units: "n mod 10 = 8"
    using String_nat_last [of n] digit_char_8 [of "n mod 10"] by simp
  from h have two: "String_nat (n div 10) = ''88''"
    using String_nat_butlast [of n] by (auto split: if_splits)
  from two have tens: "n div 10 mod 10 = 8"
    using String_nat_last [of "n div 10"] digit_char_8 [of "n div 10 mod 10"] by simp
  from two have one: "String_nat (n div 10 div 10) = ''8''"
    using String_nat_butlast [of "n div 10"] by (auto split: if_splits)
  from one have "n div 10 div 10 < 10"
    using String_nat_butlast [of "n div 10 div 10"]
      String_nat_nonempty [of "n div 10 div 10 div 10"]
    by (auto split: if_splits)
  with one have hundreds: "n div 10 div 10 = 8"
    using String_nat_last [of "n div 10 div 10"] digit_char_8 [of "n div 10 div 10"] by simp
  have "n div 10 = 10 * (n div 10 div 10) + n div 10 mod 10" by simp
  with tens hundreds have "n div 10 = 88" by simp
  moreover have "n = 10 * (n div 10) + n mod 10" by simp
  ultimately show "n = 888" using units by simp
next
  assume "n = 888"
  then show "String_nat n = ''888''" by (simp add: String_nat_888)
qed

lemma calculateMockResult_String_nat:
  "calculateMockResult (Some (String_nat (unat (v :: uint32)))) = (if v = 888 then 1 else 0)"
proof -
  have "(unat v = 888) = (v = 888)"
    by (simp add: word_unat_eq_iff)
  then show ?thesis
    by (simp add: calculateMockResult_def SECRET_NUMBER_def String_nat_888 String_nat_is_888)
qed

lemma calculateMockResult_888:
  "calculateMockResult savedValue = (if savedValue = Some ''888'' then 1 else 0)"
  by (simp add: calculateMockResult_def SECRET_NUMBER_def String_nat_888)

lemmas contract_simps = run_def exec_def submitBid_def FHE_fromExternal_def constructor_def
  FHE_asEuint32_def FHE_toBytes32_def getMyResult_def Let_def test_verifier_def accepted_def

section \<open>The claims about the contract and the mock\<close>

text \<open>
  C1, as amended. For every bid \<open>v\<close> that the contract accepts (the input proof verifies
  and the handle stands for \<open>v\<close>), in every state the deployed contract can reach,
  \<open>submitBid\<close> succeeds, \<open>getMyResult\<close> then returns to the bidder the handle of a result
  the bidder is allowed to decrypt, and that result is 1 (success, Won) if and only if
  \<open>v \<ge> 1000\<close> and 0 otherwise; in particular a bid of exactly 1000 gives 1.
\<close>

theorem C1_result_is_1_iff_at_least_reserve:
  assumes "V who h prf = Some v"
  shows "\<exists>c' res. submitBid V (run V ts) who now h prf = Inr c'
           \<and> getMyResult c' who = Inr (Some res)
           \<and> (res, Account who) \<in> allowed c'
           \<and> cleartext res = (if 1000 \<le> v then 1 else 0)"
proof -
  obtain c' where "submitBid V (run V ts) who now h prf = Inr c'" and "hasBid c' who"
    and "bidResults c' who = Some (Euint32 (if 1000 \<le> v then 1 else 0))"
    and "(Euint32 (if 1000 \<le> v then 1 else 0), Account who) \<in> allowed c'"
    using submitBid_run [of V who h "prf" v ts now] assms by blast
  then show ?thesis
    by (intro exI [of _ c'] exI [of _ "Euint32 (if 1000 \<le> v then 1 else 0)"])
       (simp add: getMyResult_def FHE_toBytes32_def)
qed

theorem C1_result_is_1_iff_at_least_reserve_witness:
  "test_verifier 7 1500 [1] = Some 1500
   \<and> (\<exists>c' res. submitBid test_verifier (run test_verifier []) 7 0 1500 [1] = Inr c'
          \<and> getMyResult c' 7 = Inr (Some res) \<and> (res, Account 7) \<in> allowed c'
          \<and> cleartext res = 1)
   \<and> test_verifier 7 999 [1] = Some 999
   \<and> (\<exists>c' res. submitBid test_verifier (run test_verifier []) 7 0 999 [1] = Inr c'
          \<and> getMyResult c' 7 = Inr (Some res) \<and> (res, Account 7) \<in> allowed c'
          \<and> cleartext res = 0)"
  using C1_result_is_1_iff_at_least_reserve [of test_verifier 7 1500 "[1]" 1500 "[]" 0]
    C1_result_is_1_iff_at_least_reserve [of test_verifier 7 999 "[1]" 999 "[]" 0]
  by (simp add: test_verifier_def)

text \<open>
  C1 as stated asks for \<open>Lost\<close> at the boundary. On the freshly deployed contract a bid
  of exactly 1000 is accepted and the result returned to the bidder is 1, not 0.
\<close>

theorem C1_boundary_counterexample:
  "accepted test_verifier \<lparr>caller = 7, minedAt = 0, bidHandle = 1000, bidProof = [1]\<rparr>
   \<and> getMyResult (run test_verifier
          [\<lparr>caller = 7, minedAt = 0, bidHandle = 1000, bidProof = [1]\<rparr>]) 7
       = Inr (Some (Euint32 1))
   \<and> cleartext (Euint32 1) = 1
   \<and> cleartext (Euint32 1) \<noteq> 0"
  by (simp add: contract_simps)

text \<open>
  C2, as amended. The guide's mock gives 1 exactly when the saved plaintext is the string
  \<open>888\<close> and 0 for every other saved value and for none. With the plaintext of an
  accepted bid \<open>v\<close> saved in decimal, the mock equals the result of the contract's
  comparison exactly for the bids below 1000 other than 888; for 888 and for every bid of
  1000 or more the two differ.
\<close>

theorem C2_mock_agrees_only_below_reserve:
  "calculateMockResult savedValue = (if savedValue = Some ''888'' then 1 else 0)
   \<and> (V who h prf = Some v \<longrightarrow>
        (\<exists>c'. submitBid V (run V ts) who now h prf = Inr c'
           \<and> (map_option cleartext (bidResults c' who)
                = Some (calculateMockResult (Some (String_nat (unat v))))
              \<longleftrightarrow> v < 1000 \<and> v \<noteq> 888)))"
proof -
  have "\<exists>c'. submitBid V (run V ts) who now h prf = Inr c'
           \<and> (map_option cleartext (bidResults c' who)
                = Some (calculateMockResult (Some (String_nat (unat v))))
              \<longleftrightarrow> v < 1000 \<and> v \<noteq> 888)"
    if a: "V who h prf = Some v"
  proof -
    obtain c' where c: "submitBid V (run V ts) who now h prf = Inr c'"
      and r: "bidResults c' who = Some (Euint32 (if 1000 \<le> v then 1 else 0))"
      using submitBid_run [of V who h "prf" v ts now] a by blast
    have "map_option cleartext (bidResults c' who)
                = Some (calculateMockResult (Some (String_nat (unat v))))
              \<longleftrightarrow> v < 1000 \<and> v \<noteq> 888"
      unfolding r calculateMockResult_String_nat by auto
    with c show ?thesis by blast
  qed
  then show ?thesis
    using calculateMockResult_888 [of savedValue] by blast
qed

theorem C2_mock_agrees_only_below_reserve_witness:
  "calculateMockResult None = 0
   \<and> calculateMockResult (Some ''888'') = 1
   \<and> test_verifier 7 500 [1] = Some 500
   \<and> (\<exists>c'. submitBid test_verifier (run test_verifier []) 7 0 500 [1] = Inr c'
          \<and> map_option cleartext (bidResults c' 7)
              = Some (calculateMockResult (Some (String_nat (unat (500 :: uint32))))))"
  using C2_mock_agrees_only_below_reserve [of None test_verifier 7 500 "[1]" 500 "[]" 0]
    C2_mock_agrees_only_below_reserve [of "Some ''888''" test_verifier 7 500 "[1]" 500 "[]" 0]
  by (simp add: test_verifier_def)

text \<open>
  C2 as stated asks the mock to equal the real comparison for every value. For the bid
  1500, saved as the string \<open>1500\<close>, the contract's comparison gives 1 and the mock 0.
\<close>

theorem C2_mock_counterexample:
  "accepted test_verifier \<lparr>caller = 7, minedAt = 0, bidHandle = 1500, bidProof = [1]\<rparr>
   \<and> map_option cleartext
        (bidResults (run test_verifier
           [\<lparr>caller = 7, minedAt = 0, bidHandle = 1500, bidProof = [1]\<rparr>]) 7) = Some 1
   \<and> String_nat 1500 = ''1500''
   \<and> calculateMockResult (Some ''1500'') = 0"
  by (simp add: contract_simps calculateMockResult_888 String_nat.simps digit_char_def)

text \<open>
  C10. \<open>getMyResult\<close> returns a handle exactly when \<open>hasBid\<close> holds for the caller, and
  otherwise reverts with \<open>No bid submitted\<close>. In the deployed contract \<open>hasBid\<close> holds
  for an address exactly when one of its \<open>submitBid\<close> calls was accepted, so a caller who
  never submitted a bid gets the revert, and a caller who did gets the handle of a stored
  result, never the zero handle. \<open>getMyResult\<close> is a view function: it has a value and no
  state after it.
\<close>

theorem C10_getMyResult_iff_hasBid:
  "((\<exists>h. getMyResult c a = Inr h) \<longleftrightarrow> hasBid c a)
   \<and> (hasBid c a \<longrightarrow> getMyResult c a = Inr (bidResults c a))
   \<and> (\<not> hasBid c a \<longrightarrow> getMyResult c a = Inl (Require ''No bid submitted''))
   \<and> (hasBid (run V ts) a \<longleftrightarrow> (\<exists>t \<in> set ts. caller t = a \<and> accepted V t))
   \<and> (hasBid (run V ts) a \<longrightarrow> (\<exists>e. getMyResult (run V ts) a = Inr (Some e)))"
proof -
  have "hasBid (run V ts) a \<longrightarrow> (\<exists>e. getMyResult (run V ts) a = Inr (Some e))"
    using bidResults_run [of V ts a] by (auto simp: getMyResult_def FHE_toBytes32_def)
  then show ?thesis
    by (simp add: getMyResult_def FHE_toBytes32_def hasBid_run)
qed

theorem C10_getMyResult_iff_hasBid_witness:
  "\<not> hasBid (run test_verifier []) 7
   \<and> getMyResult (run test_verifier []) 7 = Inl (Require ''No bid submitted'')
   \<and> hasBid (run test_verifier [\<lparr>caller = 7, minedAt = 1, bidHandle = 1500, bidProof = [1]\<rparr>]) 7
   \<and> getMyResult (run test_verifier
          [\<lparr>caller = 7, minedAt = 1, bidHandle = 1500, bidProof = [1]\<rparr>]) 7
       = Inr (Some (Euint32 1))
   \<and> getMyResult (run test_verifier
          [\<lparr>caller = 7, minedAt = 1, bidHandle = 1500, bidProof = [1]\<rparr>]) 8
       = Inl (Require ''No bid submitted'')"
  using C10_getMyResult_iff_hasBid [of "run test_verifier []" 7 test_verifier "[]"]
    C10_getMyResult_iff_hasBid
      [of "run test_verifier [\<lparr>caller = 7, minedAt = 1, bidHandle = 1500, bidProof = [1]\<rparr>]" 7
          test_verifier "[\<lparr>caller = 7, minedAt = 1, bidHandle = 1500, bidProof = [1]\<rparr>]"]
    C10_getMyResult_iff_hasBid
      [of "run test_verifier [\<lparr>caller = 7, minedAt = 1, bidHandle = 1500, bidProof = [1]\<rparr>]" 8
          test_verifier "[\<lparr>caller = 7, minedAt = 1, bidHandle = 1500, bidProof = [1]\<rparr>]"]
  by (simp add: accepted_def test_verifier_def)
     (simp add: run_def exec_def submitBid_def FHE_fromExternal_def constructor_def
        FHE_asEuint32_def Let_def test_verifier_def)

section \<open>Facts about the page\<close>

lemma logged_from_append:
  "logged_from env i (a @ b) = (logged_from env i a \<and> logged_from env (i + length a) b)"
  by (induction env i a rule: logged_from.induct) auto

lemma keys_generated_append: "keys_generated (a @ b) = keys_generated a @ keys_generated b"
  by (induction a rule: keys_generated.induct) auto

lemma keys_used_append: "keys_used (a @ b) = keys_used a @ keys_used b"
  by (induction a rule: keys_used.induct) auto

lemma backoffs_append: "backoffs (a @ b) = backoffs a @ backoffs b"
  by (induction a rule: backoffs.induct) auto

lemma ledger_submissions_append:
  "ledger_submissions (a @ b) = ledger_submissions a @ ledger_submissions b"
  by (induction a rule: ledger_submissions.induct) auto

lemma logged_from_Cons: "logged_from env i (x # w) \<Longrightarrow> logged_from env (Suc i) w"
  by (cases x) auto

lemma keys_generated_Cons:
  "k \<in> set (keys_generated (x # w)) \<Longrightarrow> x = GenerateKeypair (Inr k) \<or> k \<in> set (keys_generated w)"
proof (cases x)
  case (GenerateKeypair r)
  assume "k \<in> set (keys_generated (x # w))"
  with GenerateKeypair show ?thesis by (cases r) auto
qed auto

lemma keys_generated_from:
  "logged_from env i w \<Longrightarrow> k \<in> set (keys_generated w) \<Longrightarrow>
   \<exists>j\<ge>i. generateKeypair env j = Inr k"
proof (induction w arbitrary: i)
  case Nil
  then show ?case by simp
next
  case (Cons x w)
  from Cons.prems(2) consider "x = GenerateKeypair (Inr k)" | "k \<in> set (keys_generated w)"
    using keys_generated_Cons by blast
  then show ?case
  proof cases
    case 1
    with Cons.prems(1) have "generateKeypair env i = Inr k" by simp
    then show ?thesis by blast
  next
    case 2
    moreover from Cons.prems(1) have "logged_from env (Suc i) w" by (rule logged_from_Cons)
    ultimately obtain j where "Suc i \<le> j" and "generateKeypair env j = Inr k"
      using Cons.IH by blast
    then show ?thesis by (intro exI [of _ j]) simp
  qed
qed

lemma distinct_keys_generated:
  "fresh_keys env \<Longrightarrow> logged_from env i w \<Longrightarrow> distinct (keys_generated w)"
proof (induction w arbitrary: i)
  case Nil
  then show ?case by simp
next
  case (Cons x w)
  from Cons.prems(2) have tl: "logged_from env (Suc i) w" by (rule logged_from_Cons)
  with Cons have d: "distinct (keys_generated w)" by blast
  show ?case
  proof (cases "\<exists>k. x = GenerateKeypair (Inr k)")
    case True
    then obtain k where x: "x = GenerateKeypair (Inr k)" by blast
    with Cons.prems(2) have here: "generateKeypair env i = Inr k" by simp
    have "k \<notin> set (keys_generated w)"
    proof
      assume "k \<in> set (keys_generated w)"
      with tl obtain j where "Suc i \<le> j" and "generateKeypair env j = Inr k"
        using keys_generated_from by blast
      with here Cons.prems(1) show False
        unfolding fresh_keys_def by fastforce
    qed
    with d x show ?thesis by simp
  next
    case False
    then have "keys_generated (x # w) = keys_generated w"
    proof (cases x)
      case (GenerateKeypair r)
      with False show ?thesis by (cases r) auto
    qed auto
    with d show ?thesis by simp
  qed
qed

lemma subseq_distinct: "subseq xs ys \<Longrightarrow> distinct ys \<Longrightarrow> distinct xs"
  using subseqs_distinctD [of xs ys] by (simp add: in_set_subseqs)

lemma extends_log_refl: "extends_log env w w 0 0"
  by (simp add: extends_log_def)

lemma extends_log_trans:
  assumes "extends_log env w w' k b" and "extends_log env w' w'' k' b'"
  shows "extends_log env w w'' (k + k') (b + b')"
proof -
  from assms(1) obtain n1 where n1: "w' = w @ n1" "logged_from env (length w) n1"
    "subseq (keys_used n1) (keys_generated n1)" "length (keys_used n1) \<le> k"
    "length (backoffs n1) \<le> b"
    unfolding extends_log_def by blast
  from assms(2) obtain n2 where n2: "w'' = w' @ n2" "logged_from env (length w') n2"
    "subseq (keys_used n2) (keys_generated n2)" "length (keys_used n2) \<le> k'"
    "length (backoffs n2) \<le> b'"
    unfolding extends_log_def by blast
  have "w'' = w @ (n1 @ n2)" using n1(1) n2(1) by simp
  moreover have "logged_from env (length w) (n1 @ n2)"
    using n1 n2 by (simp add: logged_from_append)
  moreover have "subseq (keys_used (n1 @ n2)) (keys_generated (n1 @ n2))"
    using n1(3) n2(3) by (simp add: keys_used_append keys_generated_append list_emb_append_mono)
  moreover have "length (keys_used (n1 @ n2)) \<le> k + k'"
    using n1(4) n2(4) by (simp add: keys_used_append)
  moreover have "length (backoffs (n1 @ n2)) \<le> b + b'"
    using n1(5) n2(5) by (simp add: backoffs_append)
  ultimately show ?thesis unfolding extends_log_def by blast
qed

lemma extends_log_mono:
  assumes "extends_log env w w' k b" and "k \<le> k'" and "b \<le> b'"
  shows "extends_log env w w' k' b'"
proof -
  from assms(1) obtain new where "w' = w @ new" "logged_from env (length w) new"
    "subseq (keys_used new) (keys_generated new)" "length (keys_used new) \<le> k"
    "length (backoffs new) \<le> b"
    unfolding extends_log_def by blast
  with assms(2,3) show ?thesis
    unfolding extends_log_def by (intro exI [of _ new]) simp
qed

lemma extends_log_backoff: "extends_log env w (w @ [SetTimeout t]) 0 1"
  by (simp add: extends_log_def)

lemma decrypt_try_extends: "extends_log env w (snd (decrypt_try env w)) 1 0"
  unfolding extends_log_def decrypt_try_def Let_def
  by (auto split: sum.splits)

lemma decrypt_try_starts:
  "\<exists>rest. snd (decrypt_try env w) = w @ GetSigner # rest"
  unfolding decrypt_try_def Let_def
  by (auto split: sum.splits)

lemma connected_iff:
  "connected st \<Longrightarrow>
   (fhevmInstance st = None \<or> walletClient st = None \<or> address st = None) = False"
  by (simp add: connected_def)

lemma disconnected_iff:
  "\<not> connected st \<Longrightarrow>
   (fhevmInstance st = None \<or> walletClient st = None \<or> address st = None) = True"
  by (auto simp: connected_def)

lemma handleDecryptResult_disconnected:
  "\<not> connected st \<Longrightarrow>
   handleDecryptResult env r (st, w) = (st\<lparr>error := Some ''Please connect your wallet first''\<rparr>, w)"
  by (subst handleDecryptResult.simps) (simp add: disconnected_iff)

lemma handleDecryptResult_success:
  "connected st \<Longrightarrow> decrypt_try env w = (Inr v, w') \<Longrightarrow>
   handleDecryptResult env r (st, w)
     = (st\<lparr>isDecrypting := False, canDecrypt := False, result := v, error := None\<rparr>, w')"
  by (subst handleDecryptResult.simps) (simp add: connected_iff)

lemma handleDecryptResult_failed:
  "connected st \<Longrightarrow> decrypt_try env w = (Inl e, w') \<Longrightarrow> \<not> (is_500 e \<and> r < 3) \<Longrightarrow>
   handleDecryptResult env r (st, w)
     = (st\<lparr>isDecrypting := False,
            error := Some (message_or e ''Failed to decrypt result'')\<rparr>, w')"
  by (subst handleDecryptResult.simps) (auto simp: connected_iff Let_def)

lemma handleDecryptResult_retry:
  "connected st \<Longrightarrow> decrypt_try env w = (Inl e, w') \<Longrightarrow> is_500 e \<Longrightarrow> r < 3 \<Longrightarrow>
   handleDecryptResult env r (st, w)
     = (case handleDecryptResult env (r + 1)
               (st\<lparr>isDecrypting := True,
                   error := Some (''Retrying... ('' @ String_nat (r + 1) @ ''/3)'')\<rparr>,
                w' @ [SetTimeout ((r + 1) * 10 * 1000)]) of
          (st3, w3) \<Rightarrow> (st3\<lparr>isDecrypting := False\<rparr>, w3))"
  by (subst handleDecryptResult.simps) (simp add: connected_iff Let_def)

lemma handleDecryptResult_extends:
  "extends_log env w (snd (handleDecryptResult env r (st, w))) (Suc (3 - r)) (3 - r)"
proof (induction "3 - r" arbitrary: r st w rule: less_induct)
  case less
  show ?case
  proof (cases "connected st")
    case False
    then show ?thesis
      using extends_log_mono [OF extends_log_refl [of env w], of "Suc (3 - r)" "3 - r"]
      by (simp add: handleDecryptResult_disconnected)
  next
    case True
    obtain x w' where dt: "decrypt_try env w = (x, w')" by (cases "decrypt_try env w")
    have e1: "extends_log env w w' 1 0" using decrypt_try_extends [of env w] dt by simp
    show ?thesis
    proof (cases x)
      case (Inr v)
      with True dt e1 show ?thesis
        using extends_log_mono [of env w w' 1 0 "Suc (3 - r)" "3 - r"]
        by (simp add: handleDecryptResult_success)
    next
      case (Inl e)
      show ?thesis
      proof (cases "is_500 e \<and> r < 3")
        case False
        with True dt e1 Inl show ?thesis
          using extends_log_mono [of env w w' 1 0 "Suc (3 - r)" "3 - r"]
          by (simp add: handleDecryptResult_failed)
      next
        case retry: True
        let ?st2 = "st\<lparr>isDecrypting := True,
                   error := Some (''Retrying... ('' @ String_nat (r + 1) @ ''/3)'')\<rparr>"
        let ?w2 = "w' @ [SetTimeout ((r + 1) * 10 * 1000)]"
        from retry have "r < 3" by simp
        then have "3 - (r + 1) < 3 - r" by arith
        then have ih: "extends_log env ?w2 (snd (handleDecryptResult env (r + 1) (?st2, ?w2)))
                         (Suc (3 - (r + 1))) (3 - (r + 1))"
          by (rule less)
        have "extends_log env w ?w2 (1 + 0) (0 + 1)"
          using e1 extends_log_backoff by (rule extends_log_trans)
        then have "extends_log env w (snd (handleDecryptResult env (r + 1) (?st2, ?w2)))
                     (1 + 0 + Suc (3 - (r + 1))) (0 + 1 + (3 - (r + 1)))"
          using ih by (rule extends_log_trans)
        moreover from \<open>r < 3\<close> have "1 + 0 + Suc (3 - (r + 1)) = Suc (3 - r)"
          and "0 + 1 + (3 - (r + 1)) = 3 - r" by arith+
        ultimately have "extends_log env w (snd (handleDecryptResult env (r + 1) (?st2, ?w2)))
                     (Suc (3 - r)) (3 - r)" by simp
        with True dt Inl retry show ?thesis
          by (simp add: handleDecryptResult_retry case_prod_beta)
      qed
    qed
  qed
qed

lemma submit_try_log:
  "\<exists>new. snd (submit_try env me amount w) = w @ new
     \<and> keys_used new = [] \<and> keys_generated new = [] \<and> backoffs new = []
     \<and> logged_from env (length w) new
     \<and> (ledger_submissions new = []
        \<or> (\<exists>enc. encrypt env (length w) (CONTRACT_ADDRESS env) me (parseInt env amount) = Inr enc
              \<and> ledger_submissions new = [(first (handles enc), inputProof enc)]))"
  unfolding submit_try_def Let_def
  by (auto split: sum.splits)

lemma handleSubmitBid_log:
  "\<exists>new. snd (handleSubmitBid env (st, w)) = w @ new
     \<and> keys_used new = [] \<and> keys_generated new = [] \<and> backoffs new = []
     \<and> logged_from env (length w) new
     \<and> (ledger_submissions new = []
        \<or> (\<exists>enc. encrypt env (length w) (CONTRACT_ADDRESS env) (the (address st))
                    (parseInt env (bidAmount st)) = Inr enc
              \<and> ledger_submissions new = [(first (handles enc), inputProof enc)]))"
proof -
  obtain new where new: "snd (submit_try env (the (address st)) (bidAmount st) w) = w @ new"
    "keys_used new = []" "keys_generated new = []" "backoffs new = []"
    "logged_from env (length w) new"
    "ledger_submissions new = []
        \<or> (\<exists>enc. encrypt env (length w) (CONTRACT_ADDRESS env) (the (address st))
                    (parseInt env (bidAmount st)) = Inr enc
              \<and> ledger_submissions new = [(first (handles enc), inputProof enc)])"
    using submit_try_log [of env "the (address st)" "bidAmount st" w] by blast
  obtain x w' where st: "submit_try env (the (address st)) (bidAmount st) w = (x, w')"
    by (cases "submit_try env (the (address st)) (bidAmount st) w")
  with new(1) have w': "w' = w @ new" by simp
  have "snd (handleSubmitBid env (st, w)) = w \<or> snd (handleSubmitBid env (st, w)) = w'
      \<or> snd (handleSubmitBid env (st, w)) = w' @ [SetInterval 1000]"
    using st by (cases x) (simp_all add: handleSubmitBid_def Let_def)
  then consider (rejected) "snd (handleSubmitBid env (st, w)) = w"
    | (failed) "snd (handleSubmitBid env (st, w)) = w'"
    | (confirmed) "snd (handleSubmitBid env (st, w)) = w' @ [SetInterval 1000]"
    by blast
  then show ?thesis
  proof cases
    case rejected
    then show ?thesis by (intro exI [of _ "[]"]) simp
  next
    case failed
    with w' new show ?thesis by (intro exI [of _ new]) simp
  next
    case confirmed
    with w' new show ?thesis
      by (intro exI [of _ "new @ [SetInterval 1000]"])
         (simp add: keys_used_append keys_generated_append backoffs_append
            logged_from_append ledger_submissions_append)
  qed
qed

lemma handleSubmitBid_extends: "extends_log env w (snd (handleSubmitBid env (st, w))) 0 0"
  using handleSubmitBid_log [of env st w] unfolding extends_log_def by auto

lemma handleDecryptResult_after_try:
  assumes "connected st"
  shows "\<exists>more. snd (handleDecryptResult env r (st, w)) = snd (decrypt_try env w) @ more"
proof -
  obtain x w' where dt: "decrypt_try env w = (x, w')" by (cases "decrypt_try env w")
  show ?thesis
  proof (cases x)
    case (Inr v)
    with assms dt show ?thesis by (simp add: handleDecryptResult_success)
  next
    case (Inl e)
    show ?thesis
    proof (cases "is_500 e \<and> r < 3")
      case False
      with assms dt Inl show ?thesis by (simp add: handleDecryptResult_failed)
    next
      case True
      let ?st2 = "st\<lparr>isDecrypting := True,
                 error := Some (''Retrying... ('' @ String_nat (r + 1) @ ''/3)'')\<rparr>"
      let ?w2 = "w' @ [SetTimeout ((r + 1) * 10 * 1000)]"
      obtain new where "snd (handleDecryptResult env (r + 1) (?st2, ?w2)) = ?w2 @ new"
        using handleDecryptResult_extends [of env ?w2 "r + 1" ?st2] unfolding extends_log_def by blast
      with assms dt Inl True show ?thesis
        by (simp add: handleDecryptResult_retry case_prod_beta)
    qed
  qed
qed

lemma handleDecryptResult_starts:
  assumes "connected st"
  shows "\<exists>rest. snd (handleDecryptResult env r (st, w)) = w @ GetSigner # rest"
proof -
  obtain more where "snd (handleDecryptResult env r (st, w)) = snd (decrypt_try env w) @ more"
    using handleDecryptResult_after_try [OF assms] by blast
  moreover obtain rest where "snd (decrypt_try env w) = w @ GetSigner # rest"
    using decrypt_try_starts by blast
  ultimately show ?thesis by simp
qed

lemma is_500_message: "is_500 e \<Longrightarrow> Some (message_or e d) = message e"
  by (cases e rule: is_500.cases) auto


lemma act_extends: "\<exists>k b. extends_log env w (snd (act env (st, w) a)) k b"
proof (cases a)
  case ClickSubmit
  then show ?thesis using handleSubmitBid_extends [of env w st] extends_log_refl [of env w] by auto
next
  case ClickDecrypt
  then show ?thesis using handleDecryptResult_extends [of env w 0 st] extends_log_refl [of env w] by auto
qed (use extends_log_refl [of env w] in auto)

lemma session_extends: "\<exists>k b. extends_log env w (snd (session env (st, w) as)) k b"
proof (induction as arbitrary: st w)
  case Nil
  then show ?case using extends_log_refl [of env w] by (auto simp: session_def)
next
  case (Cons a as)
  obtain st1 w1 where step: "act env (st, w) a = (st1, w1)" by (cases "act env (st, w) a")
  obtain k b where e1: "extends_log env w w1 k b" using act_extends [of env w st a] step by auto
  obtain k' b' where "extends_log env w1 (snd (session env (st1, w1) as)) k' b'"
    using Cons.IH by blast
  with e1 have "extends_log env w (snd (session env (st1, w1) as)) (k + k') (b + b')"
    by (rule extends_log_trans)
  with step show ?case by (auto simp: session_def)
qed

section \<open>Facts about the stand-ins\<close>

lemmas ts_simps = test_services_def relayer_up_def relayer_down_def relayer_unavailable_def
  test_encrypt_def plain_decimal_def digit_value_def


lemma stamp: "String_nat 1700000000 = ''1700000000''"
  by (simp add: String_nat.simps digit_char_def)

lemma decrypt_try_down:
  "decrypt_try (test_services relayer_down) w
     = (Inl (Exn (Some ''Request failed with status code 500'')),
        w @ [GetSigner, ContractGetMyResult,
             GenerateKeypair (Inr \<lparr>publicKey = 2 * (length w + 2), privateKey = 2 * (length w + 2) + 1\<rparr>),
             DateNow,
             CreateEIP712 (2 * (length w + 2)) ''1700000000'' ''10'',
             SignTypedData,
             UserDecrypt (Some (Euint32 1))
               \<lparr>publicKey = 2 * (length w + 2), privateKey = 2 * (length w + 2) + 1\<rparr> ''5157''])"
  by (simp add: decrypt_try_def ts_simps Let_def stamp)

lemma is_500_down: "is_500 (Exn (Some ''Request failed with status code 500''))"
  by simp

lemma decrypt_try_unavailable:
  "decrypt_try (test_services relayer_unavailable) w
     = (Inl (Exn (Some ''Request failed with status code 503'')),
        w @ [GetSigner, ContractGetMyResult,
             GenerateKeypair (Inr \<lparr>publicKey = 2 * (length w + 2), privateKey = 2 * (length w + 2) + 1\<rparr>),
             DateNow,
             CreateEIP712 (2 * (length w + 2)) ''1700000000'' ''10'',
             SignTypedData,
             UserDecrypt (Some (Euint32 1))
               \<lparr>publicKey = 2 * (length w + 2), privateKey = 2 * (length w + 2) + 1\<rparr> ''5157''])"
  by (simp add: decrypt_try_def ts_simps Let_def stamp)

lemma not_500_unavailable: "\<not> is_500 (Exn (Some ''Request failed with status code 503''))"
  by simp

lemma connected_ready: "connected (ready_page me)"
  by (simp add: connected_def ready_page_def fresh_page_def)

lemma down_chain:
  "handleDecryptResult (test_services relayer_down) 0 (ready_page 7, [])
     = ((ready_page 7)\<lparr>error := Some ''Request failed with status code 500''\<rparr>,
        [GetSigner, ContractGetMyResult,
         GenerateKeypair (Inr \<lparr>publicKey = 4, privateKey = 5\<rparr>), DateNow,
         CreateEIP712 4 ''1700000000'' ''10'', SignTypedData,
         UserDecrypt (Some (Euint32 1)) \<lparr>publicKey = 4, privateKey = 5\<rparr> ''5157'',
         SetTimeout 10000,
         GetSigner, ContractGetMyResult,
         GenerateKeypair (Inr \<lparr>publicKey = 20, privateKey = 21\<rparr>), DateNow,
         CreateEIP712 20 ''1700000000'' ''10'', SignTypedData,
         UserDecrypt (Some (Euint32 1)) \<lparr>publicKey = 20, privateKey = 21\<rparr> ''5157'',
         SetTimeout 20000,
         GetSigner, ContractGetMyResult,
         GenerateKeypair (Inr \<lparr>publicKey = 36, privateKey = 37\<rparr>), DateNow,
         CreateEIP712 36 ''1700000000'' ''10'', SignTypedData,
         UserDecrypt (Some (Euint32 1)) \<lparr>publicKey = 36, privateKey = 37\<rparr> ''5157'',
         SetTimeout 30000,
         GetSigner, ContractGetMyResult,
         GenerateKeypair (Inr \<lparr>publicKey = 52, privateKey = 53\<rparr>), DateNow,
         CreateEIP712 52 ''1700000000'' ''10'', SignTypedData,
         UserDecrypt (Some (Euint32 1)) \<lparr>publicKey = 52, privateKey = 53\<rparr> ''5157''])"
proof -
  let ?env = "test_services relayer_down"
  have fail: "\<And>st w r. connected st \<Longrightarrow> \<not> r < 3 \<Longrightarrow>
      handleDecryptResult ?env r (st, w)
        = (st\<lparr>isDecrypting := False,
               error := Some (message_or (Exn (Some ''Request failed with status code 500''))
                                ''Failed to decrypt result'')\<rparr>,
           snd (decrypt_try ?env w))"
    using handleDecryptResult_failed [OF _ decrypt_try_down] by (simp add: decrypt_try_down)
  have retry: "\<And>st w r. connected st \<Longrightarrow> r < 3 \<Longrightarrow>
      handleDecryptResult ?env r (st, w)
        = (case handleDecryptResult ?env (r + 1)
               (st\<lparr>isDecrypting := True,
                   error := Some (''Retrying... ('' @ String_nat (r + 1) @ ''/3)'')\<rparr>,
                snd (decrypt_try ?env w) @ [SetTimeout ((r + 1) * 10 * 1000)]) of
          (st3, w3) \<Rightarrow> (st3\<lparr>isDecrypting := False\<rparr>, w3))"
    using handleDecryptResult_retry [OF _ decrypt_try_down is_500_down] by (simp add: decrypt_try_down)
  show ?thesis
    by (simp add: retry fail decrypt_try_down connected_def ready_page_def fresh_page_def)
qed

lemma decryptEnabled_ready: "decryptEnabled (ready_page me)"
  by (simp add: decryptEnabled_def mainInterface_def ready_page_def fresh_page_def)

lemma fresh_keys_test: "fresh_keys (test_services relayer)"
  by (simp add: fresh_keys_def test_services_def)

section \<open>The claims about the page\<close>

text \<open>
  C3. Whatever the services answer, a run of \<open>handleSubmitBid\<close> calls the contract's
  \<open>submitBid\<close> at most once, and what it passes is the first handle and the input proof
  that the SDK's encryption returned for \<open>parseInt(bidAmount)\<close>, the contract address and
  the bidder's address. The bid amount itself goes to \<open>parseFloat\<close>, \<open>parseInt\<close> and the
  encryption only.
\<close>

theorem C3_ledger_receives_encrypted_handle:
  "\<exists>new. snd (handleSubmitBid env (st, w)) = w @ new
     \<and> (ledger_submissions new = []
        \<or> (\<exists>enc. encrypt env (length w) (CONTRACT_ADDRESS env) (the (address st))
                    (parseInt env (bidAmount st)) = Inr enc
              \<and> ledger_submissions new = [(first (handles enc), inputProof enc)]))"
  using handleSubmitBid_log [of env st w] by blast

theorem C3_ledger_receives_encrypted_handle_witness:
  "encrypt (test_services relayer_up) 0 (CONTRACT_ADDRESS (test_services relayer_up)) 7
       (parseInt (test_services relayer_up) ''1500'')
     = Inr \<lparr>handles = [1500], inputProof = [1]\<rparr>
   \<and> ledger_submissions
         (snd (handleSubmitBid (test_services relayer_up)
                 ((fresh_page 7)\<lparr>bidAmount := ''1500''\<rparr>, [])))
       = [(Some 1500, [1])]"
  using C3_ledger_receives_encrypted_handle
    [of "test_services relayer_up" "(fresh_page 7)\<lparr>bidAmount := ''1500''\<rparr>" "[]"]
  by (simp add: handleSubmitBid_def submit_try_def fresh_page_def ts_simps Let_def)

text \<open>
  C4, as amended. The failures that are retried are those whose message contains \<open>500\<close>.
  When an attempt of \<open>handleDecryptResult(r)\<close> with \<open>r < 3\<close> fails with such an
  exception, the handler shows \<open>Retrying... (r+1/3)\<close>, waits \<open>(r + 1) * 10\<close> seconds (a
  timeout of \<open>(r + 1) * 10 * 1000\<close> milliseconds) and continues as the one call
  \<open>handleDecryptResult(r + 1)\<close>: in the log the failed attempt is followed by that wait
  and then by the first call of the new attempt. When the message does not contain
  \<open>500\<close>, as for a 502, 503 or 504, the handler ends at once with the error and neither
  waits nor tries again.
\<close>

theorem C4_retry_after_backoff_on_500:
  assumes "connected st" and "decrypt_try env w = (Inl e, w')" and "r < 3"
  shows "(is_500 e \<longrightarrow>
            handleDecryptResult env r (st, w)
              = (case handleDecryptResult env (r + 1)
                        (st\<lparr>isDecrypting := True,
                            error := Some (''Retrying... ('' @ String_nat (r + 1) @ ''/3)'')\<rparr>,
                         w' @ [SetTimeout ((r + 1) * 10 * 1000)]) of
                   (st3, w3) \<Rightarrow> (st3\<lparr>isDecrypting := False\<rparr>, w3))
            \<and> (\<exists>rest. snd (handleDecryptResult env r (st, w))
                         = w' @ SetTimeout ((r + 1) * 10 * 1000) # GetSigner # rest))
         \<and> (\<not> is_500 e \<longrightarrow>
            handleDecryptResult env r (st, w)
              = (st\<lparr>isDecrypting := False,
                     error := Some (message_or e ''Failed to decrypt result'')\<rparr>, w'))"
proof (cases "is_500 e")
  case True
  let ?st2 = "st\<lparr>isDecrypting := True,
             error := Some (''Retrying... ('' @ String_nat (r + 1) @ ''/3)'')\<rparr>"
  let ?w2 = "w' @ [SetTimeout ((r + 1) * 10 * 1000)]"
  have eq: "handleDecryptResult env r (st, w)
           = (case handleDecryptResult env (r + 1) (?st2, ?w2) of
                (st3, w3) \<Rightarrow> (st3\<lparr>isDecrypting := False\<rparr>, w3))"
    using assms(1,2) True assms(3) by (rule handleDecryptResult_retry)
  have "connected ?st2" using assms(1) by (simp add: connected_def)
  then obtain rest where "snd (handleDecryptResult env (r + 1) (?st2, ?w2)) = ?w2 @ GetSigner # rest"
    using handleDecryptResult_starts by blast
  then have "snd (handleDecryptResult env r (st, w))
               = w' @ SetTimeout ((r + 1) * 10 * 1000) # GetSigner # rest"
    unfolding eq by (simp add: case_prod_beta)
  with eq True show ?thesis by blast
next
  case False
  then have "handleDecryptResult env r (st, w)
              = (st\<lparr>isDecrypting := False,
                     error := Some (message_or e ''Failed to decrypt result'')\<rparr>, w')"
    using assms(1,2) by (simp add: handleDecryptResult_failed)
  with False show ?thesis by blast
qed

theorem C4_retry_after_backoff_on_500_witness:
  "connected (ready_page 7)
   \<and> decrypt_try (test_services relayer_down) []
       = (Inl (Exn (Some ''Request failed with status code 500'')),
          [GetSigner, ContractGetMyResult,
           GenerateKeypair (Inr \<lparr>publicKey = 4, privateKey = 5\<rparr>), DateNow,
           CreateEIP712 4 ''1700000000'' ''10'', SignTypedData,
           UserDecrypt (Some (Euint32 1)) \<lparr>publicKey = 4, privateKey = 5\<rparr> ''5157''])
   \<and> is_500 (Exn (Some ''Request failed with status code 500''))
   \<and> take 9 (snd (handleDecryptResult (test_services relayer_down) 0 (ready_page 7, [])))
       = [GetSigner, ContractGetMyResult,
          GenerateKeypair (Inr \<lparr>publicKey = 4, privateKey = 5\<rparr>), DateNow,
          CreateEIP712 4 ''1700000000'' ''10'', SignTypedData,
          UserDecrypt (Some (Euint32 1)) \<lparr>publicKey = 4, privateKey = 5\<rparr> ''5157'',
          SetTimeout 10000, GetSigner]"
  using C4_retry_after_backoff_on_500 [of "ready_page 7" "test_services relayer_down" "[]"
      "Exn (Some ''Request failed with status code 500'')"
      "[GetSigner, ContractGetMyResult,
        GenerateKeypair (Inr \<lparr>publicKey = 4, privateKey = 5\<rparr>), DateNow,
        CreateEIP712 4 ''1700000000'' ''10'', SignTypedData,
        UserDecrypt (Some (Euint32 1)) \<lparr>publicKey = 4, privateKey = 5\<rparr> ''5157'']" 0]
    connected_ready [of 7] decrypt_try_down [of "[]"]
  by auto

text \<open>
  C4 as stated covers every failure of the server-side 5xx class. A relayer that answers
  the first request with a 503 error is asked once: there is no wait and no second
  attempt, and the page shows the error.
\<close>

theorem C4_503_counterexample:
  "\<not> is_500 (Exn (Some ''Request failed with status code 503''))
   \<and> handleDecryptResult (test_services relayer_unavailable) 0 (ready_page 7, [])
       = ((ready_page 7)\<lparr>error := Some ''Request failed with status code 503''\<rparr>,
          [GetSigner, ContractGetMyResult,
           GenerateKeypair (Inr \<lparr>publicKey = 4, privateKey = 5\<rparr>), DateNow,
           CreateEIP712 4 ''1700000000'' ''10'', SignTypedData,
           UserDecrypt (Some (Euint32 1)) \<lparr>publicKey = 4, privateKey = 5\<rparr> ''5157''])"
  using handleDecryptResult_failed
    [OF connected_ready [of 7] decrypt_try_unavailable [of "[]"], of 0]
  by (simp add: ready_page_def fresh_page_def)

text \<open>
  C5, as amended. Once the retry index is 3, a failed attempt, transient or not, ends
  \<open>handleDecryptResult\<close> at once: the log is that of the attempt, without a further
  wait or attempt, the error shown is the exception's message (for a transient failure)
  and the page is in \<open>Failed\<close>. A call \<open>handleDecryptResult(0)\<close> makes at most four
  decryption requests and waits at most three times. The handler has no fallback branch.
\<close>

theorem C5_no_attempt_after_last_retry:
  assumes "connected st" and "decrypt_try env w = (Inl e, w')"
  shows "handleDecryptResult env 3 (st, w)
           = (st\<lparr>isDecrypting := False,
                  error := Some (message_or e ''Failed to decrypt result'')\<rparr>, w')
         \<and> (is_500 e \<longrightarrow> error (fst (handleDecryptResult env 3 (st, w))) = message e)
         \<and> (result st = Null \<and> \<not> isSubmitting st \<longrightarrow> Failed (fst (handleDecryptResult env 3 (st, w))))
         \<and> (\<exists>new. snd (handleDecryptResult env 0 (st0, w0)) = w0 @ new
               \<and> length (keys_used new) \<le> 4 \<and> length (backoffs new) \<le> 3)"
proof -
  have eq: "handleDecryptResult env 3 (st, w)
           = (st\<lparr>isDecrypting := False,
                  error := Some (message_or e ''Failed to decrypt result'')\<rparr>, w')"
    using assms by (simp add: handleDecryptResult_failed)
  have "\<exists>new. snd (handleDecryptResult env 0 (st0, w0)) = w0 @ new
               \<and> length (keys_used new) \<le> 4 \<and> length (backoffs new) \<le> 3"
    using handleDecryptResult_extends [of env w0 0 st0] unfolding extends_log_def by auto
  with eq show ?thesis
    by (simp add: is_500_message Failed_def busy_def)
qed

theorem C5_no_attempt_after_last_retry_witness:
  "connected (ready_page 7)
   \<and> decrypt_try (test_services relayer_down) []
       = (Inl (Exn (Some ''Request failed with status code 500'')),
          [GetSigner, ContractGetMyResult,
           GenerateKeypair (Inr \<lparr>publicKey = 4, privateKey = 5\<rparr>), DateNow,
           CreateEIP712 4 ''1700000000'' ''10'', SignTypedData,
           UserDecrypt (Some (Euint32 1)) \<lparr>publicKey = 4, privateKey = 5\<rparr> ''5157''])
   \<and> handleDecryptResult (test_services relayer_down) 3 (ready_page 7, [])
       = ((ready_page 7)\<lparr>error := Some ''Request failed with status code 500''\<rparr>,
          [GetSigner, ContractGetMyResult,
           GenerateKeypair (Inr \<lparr>publicKey = 4, privateKey = 5\<rparr>), DateNow,
           CreateEIP712 4 ''1700000000'' ''10'', SignTypedData,
           UserDecrypt (Some (Euint32 1)) \<lparr>publicKey = 4, privateKey = 5\<rparr> ''5157''])
   \<and> Failed (fst (handleDecryptResult (test_services relayer_down) 3 (ready_page 7, [])))"
  using C5_no_attempt_after_last_retry [of "ready_page 7" "test_services relayer_down" "[]"
      "Exn (Some ''Request failed with status code 500'')"
      "[GetSigner, ContractGetMyResult,
        GenerateKeypair (Inr \<lparr>publicKey = 4, privateKey = 5\<rparr>), DateNow,
        CreateEIP712 4 ''1700000000'' ''10'', SignTypedData,
        UserDecrypt (Some (Euint32 1)) \<lparr>publicKey = 4, privateKey = 5\<rparr> ''5157'']"
      "ready_page 7" "[]"]
    connected_ready [of 7] decrypt_try_down [of "[]"]
  by (simp add: ready_page_def fresh_page_def Failed_def busy_def)

text \<open>
  C5 as stated sends the session to the fallback when fallback is enabled. With demo mode
  on and a plaintext saved, and a relayer that answers every request with a 500 error,
  \<open>handleDecryptResult(0)\<close> makes four requests, waits 10, 20 and 30 seconds, and ends in
  \<open>Failed\<close> with no result.
\<close>

theorem C5_fallback_counterexample:
  "checkDemoMode demo_browser
   \<and> localStorage demo_browser ''lastGuess_0x7'' = Some ''1500''
   \<and> fst (handleDecryptResult (test_services relayer_down) 0 (ready_page 7, []))
       = (ready_page 7)\<lparr>error := Some ''Request failed with status code 500''\<rparr>
   \<and> Failed (fst (handleDecryptResult (test_services relayer_down) 0 (ready_page 7, [])))
   \<and> backoffs (snd (handleDecryptResult (test_services relayer_down) 0 (ready_page 7, [])))
       = [10000, 20000, 30000]
   \<and> length (keys_used (snd (handleDecryptResult (test_services relayer_down) 0 (ready_page 7, []))))
       = 4"
  unfolding down_chain
  by (simp add: checkDemoMode_def demo_browser_def Failed_def busy_def ready_page_def fresh_page_def)

text \<open>
  C6. In every session of the page, from its load through any actions of the user and
  the timer, every decryption request uses a keypair generated in its own attempt, so
  with an SDK whose keypairs are fresh no two requests, retries included, use the same
  keypair, and no keypair is generated twice.
\<close>

theorem C6_attempts_use_distinct_keys:
  assumes "fresh_keys env"
  shows "distinct (keys_generated (snd (session env (st, []) as)))
         \<and> distinct (keys_used (snd (session env (st, []) as)))
         \<and> subseq (keys_used (snd (session env (st, []) as)))
                   (keys_generated (snd (session env (st, []) as)))"
proof -
  obtain k b where "extends_log env [] (snd (session env (st, []) as)) k b"
    using session_extends by blast
  then have l: "logged_from env 0 (snd (session env (st, []) as))"
    and s: "subseq (keys_used (snd (session env (st, []) as)))
                   (keys_generated (snd (session env (st, []) as)))"
    unfolding extends_log_def by auto
  from assms l have "distinct (keys_generated (snd (session env (st, []) as)))"
    by (rule distinct_keys_generated)
  with s show ?thesis using subseq_distinct by blast
qed

theorem C6_attempts_use_distinct_keys_witness:
  "fresh_keys (test_services relayer_down)
   \<and> keys_used (snd (session (test_services relayer_down) (ready_page 7, []) [ClickDecrypt]))
       = [\<lparr>publicKey = 4, privateKey = 5\<rparr>, \<lparr>publicKey = 20, privateKey = 21\<rparr>,
          \<lparr>publicKey = 36, privateKey = 37\<rparr>, \<lparr>publicKey = 52, privateKey = 53\<rparr>]
   \<and> distinct (keys_used (snd (session (test_services relayer_down) (ready_page 7, []) [ClickDecrypt])))"
  using C6_attempts_use_distinct_keys [of "test_services relayer_down" "ready_page 7" "[ClickDecrypt]"]
    fresh_keys_test [of relayer_down]
  by (simp add: session_def decryptEnabled_ready down_chain)




text \<open>
  C8, as amended. Reset is offered from \<open>Resolved\<close>: with the main interface rendered and
  a result shown, Try Again runs \<open>handleTryAgain\<close> and the session is \<open>Idle\<close> again, with
  no result, no error, no countdown, no bid amount, and \<open>hasBidSubmitted\<close> and
  \<open>canDecrypt\<close> false; the page keeps the plaintext nowhere but in \<open>bidAmount\<close>. From
  \<open>Failed\<close> the page offers no reset: the button is rendered only with a result, and
  Try Again changes nothing.
\<close>

theorem C8_reset_from_resolved_only:
  "(Resolved st \<and> mainInterface st \<longrightarrow>
      act env (st, w) ClickTryAgain = (handleTryAgain st, w)
      \<and> handleTryAgain st
           = st\<lparr> bidAmount := [], isSubmitting := False, isDecrypting := False,
                 hasBidSubmitted := False, canDecrypt := False, countdown := 0,
                 result := Null, error := None \<rparr>
      \<and> Idle (handleTryAgain st) \<and> bidAmount (handleTryAgain st) = [])
   \<and> (Failed st \<longrightarrow> act env (st, w) ClickTryAgain = (st, w))"
  by (auto simp: handleTryAgain_def Resolved_def Failed_def Idle_def busy_def tryAgainShown_def)

theorem C8_reset_from_resolved_only_witness:
  "Resolved ((ready_page 7)\<lparr>canDecrypt := False, result := Decrypted 1\<rparr>)
   \<and> mainInterface ((ready_page 7)\<lparr>canDecrypt := False, result := Decrypted 1\<rparr>)
   \<and> act (test_services relayer_up)
         ((ready_page 7)\<lparr>canDecrypt := False, result := Decrypted 1\<rparr>, []) ClickTryAgain
       = (fresh_page 7, [])
   \<and> Idle (fresh_page 7)
   \<and> Failed ((ready_page 7)\<lparr>error := Some ''Request failed with status code 500''\<rparr>)
   \<and> act (test_services relayer_up)
         ((ready_page 7)\<lparr>error := Some ''Request failed with status code 500''\<rparr>, [])
         ClickTryAgain
       = ((ready_page 7)\<lparr>error := Some ''Request failed with status code 500''\<rparr>, [])"
  using C8_reset_from_resolved_only
      [of "(ready_page 7)\<lparr>canDecrypt := False, result := Decrypted 1\<rparr>"
          "test_services relayer_up" "[]"]
    C8_reset_from_resolved_only
      [of "(ready_page 7)\<lparr>error := Some ''Request failed with status code 500''\<rparr>"
          "test_services relayer_up" "[]"]
  by (simp add: Resolved_def Failed_def Idle_def busy_def mainInterface_def
      ready_page_def fresh_page_def)

text \<open>
  C8 as stated has reset valid from \<open>Failed\<close>. After four 500 failures of the relayer the
  page is in \<open>Failed\<close>; clicking Try Again there changes nothing, and the page is not
  \<open>Idle\<close>.
\<close>

theorem C8_failed_counterexample:
  "Failed (fst (session (test_services relayer_down) (ready_page 7, []) [ClickDecrypt]))
   \<and> session (test_services relayer_down) (ready_page 7, []) [ClickDecrypt, ClickTryAgain]
       = session (test_services relayer_down) (ready_page 7, []) [ClickDecrypt]
   \<and> \<not> Idle (fst (session (test_services relayer_down) (ready_page 7, [])
                      [ClickDecrypt, ClickTryAgain]))"
  unfolding session_def
  by (simp add: decryptEnabled_ready down_chain)
     (simp add: Failed_def Idle_def busy_def tryAgainShown_def ready_page_def fresh_page_def)

text \<open>
  C9. With the wallet connected and the SDK initialised, a bid amount that is empty or
  whose \<open>parseFloat\<close> is at most zero is rejected: the error is \<open>Please enter a valid
  bid amount\<close>, nothing is encrypted, nothing is sent to the contract (the log is
  unchanged) and no other field of the state changes. This holds from every state, so in
  particular from \<open>Idle\<close>.
\<close>

theorem C9_invalid_bid_rejected:
  assumes "connected st"
    and "bidAmount st = [] \<or> le_zero (parseFloat env (bidAmount st))"
  shows "handleSubmitBid env (st, w) = (st\<lparr>error := Some ''Please enter a valid bid amount''\<rparr>, w)"
  using assms(2) by (simp add: handleSubmitBid_def connected_iff [OF assms(1)])

theorem C9_invalid_bid_rejected_witness:
  "connected ((fresh_page 7)\<lparr>bidAmount := ''-5''\<rparr>)
   \<and> le_zero (parseFloat (test_services relayer_up) ''-5'')
   \<and> handleSubmitBid (test_services relayer_up) ((fresh_page 7)\<lparr>bidAmount := ''-5''\<rparr>, [])
       = ((fresh_page 7)\<lparr>bidAmount := ''-5'',
                           error := Some ''Please enter a valid bid amount''\<rparr>, [])"
  using C9_invalid_bid_rejected
    [of "(fresh_page 7)\<lparr>bidAmount := ''-5''\<rparr>" "test_services relayer_up" "[]"]
  by (simp add: connected_def fresh_page_def ts_simps)

end
